theory Spec2Isabelle
  imports Main "HOL-Library.Word"
begin

section \<open>Values, errors and the file system\<close>

text \<open>
  The script \<^verbatim>\<open>generate_test_inputs.py\<close> reads \<^verbatim>\<open>test_vectors.json\<close> with
  \<^verbatim>\<open>json.load\<close> and writes every fixture with \<^verbatim>\<open>json.dump(..., indent=2)\<close>.
  What \<^verbatim>\<open>json.load\<close> returns is a Python value built from \<^verbatim>\<open>None\<close>, booleans,
  unbounded integers, floats, strings, lists and dictionaries with string keys. A float is
  kept as its 64-bit pattern; a dictionary keeps its keys in insertion order, so it is an
  association list that is looked up with \<open>map_of\<close>. A string is kept as the bytes of its
  UTF-8 encoding; a lone surrogate, which \<^verbatim>\<open>json.load\<close> accepts (\<^verbatim>\<open>"\ud800"\<close>) and UTF-8
  proper does not encode, is kept as the three bytes \<^verbatim>\<open>ED A0..BF 80..BF\<close> that the
  \<^verbatim>\<open>surrogatepass\<close> handler of the codec gives.
\<close>

datatype json =
    JNull
  | JBool bool
  | JInt int
  | JFloat "64 word"
  | JStr string
  | JArr "json list"
  | JObj "(string \<times> json) list"

text \<open>The exceptions the script can end with.\<close>

datatype py_error =
    FileNotFoundError
  | FileExistsError
  | JSONDecodeError
  | KeyError string
  | TypeError
  | UnicodeEncodeError

text \<open>
  The two places of the file system the script touches: the source file
  \<^verbatim>\<open>phase1_dir / "test_vectors.json"\<close> and the path \<^verbatim>\<open>circuits_dir / "test"\<close>, which is
  absent, occupied by something that is not a directory, or a directory of regular files
  (base name to content). The content type \<open>'b\<close> is what the two library functions
  \<^verbatim>\<open>json.load\<close> and \<^verbatim>\<open>json.dump\<close> read and write; both are parameters of the model.
  Writes to files are taken to succeed. Of the console only what can end the run is kept:
  the parameter \<open>print_ok\<close> says of a value of the source document whether \<^verbatim>\<open>print\<close> can
  write its text \<^verbatim>\<open>f"{v}"\<close> to the standard output (it raises \<^verbatim>\<open>UnicodeEncodeError\<close>
  otherwise). The fixed texts, the case numbers, the paths and the directory listing of the
  final report are taken to be printable.
\<close>

datatype 'b node =
    Absent
  | RegularFile
  | Directory "string \<rightharpoonup> 'b"

record 'b fs =
  test_vectors_file :: "'b option"
  test_dir :: "'b node"

section \<open>Python primitives used by the script\<close>

text \<open>\<^verbatim>\<open>test_dir.mkdir(exist_ok=True)\<close>\<close>

definition mkdir_exist_ok :: "'b node \<Rightarrow> py_error + (string \<rightharpoonup> 'b)" where
  "mkdir_exist_ok d =
     (case d of
        Absent \<Rightarrow> Inr Map.empty
      | RegularFile \<Rightarrow> Inl FileExistsError
      | Directory m \<Rightarrow> Inr m)"

text \<open>\<^verbatim>\<open>v[k]\<close> for a string key \<open>k\<close>: only a dictionary can be subscripted with a string.\<close>

definition getitem :: "json \<Rightarrow> string \<Rightarrow> py_error + json" where
  "getitem v k =
     (case v of
        JObj kvs \<Rightarrow> (case map_of kvs k of None \<Rightarrow> Inl (KeyError k) | Some x \<Rightarrow> Inr x)
      | _ \<Rightarrow> Inl TypeError)"

text \<open>\<^verbatim>\<open>d.get(k, default)\<close> on the items of a dictionary.\<close>

definition dict_get :: "(string \<times> json) list \<Rightarrow> string \<Rightarrow> json \<Rightarrow> json" where
  "dict_get kvs k dflt = (case map_of kvs k of None \<Rightarrow> dflt | Some x \<Rightarrow> x)"

text \<open>
  \<^verbatim>\<open>len(v)\<close>: lists, dictionaries and strings have a length. For a string this is
  the number of bytes of the model, not of code points; the script uses it only when the
  loop over the same value has raised nothing, which for a string means that it is empty.
\<close>

definition py_len :: "json \<Rightarrow> py_error + nat" where
  "py_len v =
     (case v of
        JArr xs \<Rightarrow> Inr (length xs)
      | JObj kvs \<Rightarrow> Inr (length kvs)
      | JStr s \<Rightarrow> Inr (length s)
      | _ \<Rightarrow> Inl TypeError)"

text \<open>
  The elements \<^verbatim>\<open>enumerate(v, start=1)\<close> runs over: the items of a list, the keys of a
  dictionary, the one-character strings of a string (one per byte in the model; each of
  them is a string, and subscripting a string with \<^verbatim>\<open>'name'\<close> raises \<^verbatim>\<open>TypeError\<close>).
\<close>

definition py_iter :: "json \<Rightarrow> py_error + json list" where
  "py_iter v =
     (case v of
        JArr xs \<Rightarrow> Inr xs
      | JObj kvs \<Rightarrow> Inr (map (\<lambda>kv. JStr (fst kv)) kvs)
      | JStr s \<Rightarrow> Inr (map (\<lambda>c. JStr [c]) s)
      | _ \<Rightarrow> Inl TypeError)"

text \<open>The decimal digits \<^verbatim>\<open>f"{idx}"\<close> prints for a case number.\<close>

definition digit_char :: "nat \<Rightarrow> char" where
  "digit_char d = char_of (48 + d)"

fun str_nat :: "nat \<Rightarrow> string" where
  "str_nat n =
     (if n < 10 then [digit_char n]
      else str_nat (n div 10) @ [digit_char (n mod 10)])"

declare str_nat.simps [simp del]

section \<open>The script\<close>

text \<open>\<^verbatim>\<open>f"input_case{idx}.json"\<close>, \<^verbatim>\<open>f"expected_case{idx}.json"\<close> and the summary's name.\<close>

definition input_file_name :: "nat \<Rightarrow> string" where
  "input_file_name idx = ''input_case'' @ str_nat idx @ ''.json''"

definition expected_file_name :: "nat \<Rightarrow> string" where
  "expected_file_name idx = ''expected_case'' @ str_nat idx @ ''.json''"

definition summary_file_name :: string where
  "summary_file_name = ''test_summary.json''"

text \<open>The three dictionaries built for one case (lines 60-62, 69-74 and 79-87).\<close>

definition input_data :: "json \<Rightarrow> json" where
  "input_data uniform_input = JObj [(''uniform'', uniform_input)]"

definition expected_data :: "json \<Rightarrow> json \<Rightarrow> json \<Rightarrow> json \<Rightarrow> json" where
  "expected_data expected_output tolerance name notes =
     JObj [(''expected_output'', expected_output),
           (''tolerance'', tolerance),
           (''name'', name),
           (''notes'', notes)]"

definition summary_entry :: "nat \<Rightarrow> json \<Rightarrow> json \<Rightarrow> json \<Rightarrow> json \<Rightarrow> json" where
  "summary_entry idx name uniform_input expected_output tolerance =
     JObj [(''case'', JInt (int idx)),
           (''name'', name),
           (''input'', uniform_input),
           (''expected'', expected_output),
           (''tolerance'', tolerance),
           (''input_file'', JStr (input_file_name idx)),
           (''expected_file'', JStr (expected_file_name idx))]"

text \<open>
  Lines 52-56: the five subscripts, in the order of the source. The first one that fails
  ends the run; the tuple is (name, uniform_input, expected_output, tolerance, notes).
\<close>

definition case_fields :: "json \<Rightarrow> py_error + (json \<times> json \<times> json \<times> json \<times> json)" where
  "case_fields test_case =
     (case getitem test_case ''name'' of Inl e \<Rightarrow> Inl e | Inr name \<Rightarrow>
     (case getitem test_case ''uniform_input'' of Inl e \<Rightarrow> Inl e | Inr uniform_input \<Rightarrow>
     (case getitem test_case ''expected_output'' of Inl e \<Rightarrow> Inl e | Inr expected_output \<Rightarrow>
     (case getitem test_case ''tolerance'' of Inl e \<Rightarrow> Inl e | Inr tolerance \<Rightarrow>
     (case getitem test_case ''notes'' of Inl e \<Rightarrow> Inl e | Inr notes \<Rightarrow>
        Inr (name, uniform_input, expected_output, tolerance, notes))))))"

text \<open>
  Lines 89-90: the first \<^verbatim>\<open>print\<close> writes the name, the second the input, the expected
  output and the tolerance; \<^verbatim>\<open>notes\<close> is not printed. Both succeed when all four texts
  can be written.
\<close>

definition print_progress :: "(json \<Rightarrow> bool) \<Rightarrow> json \<Rightarrow> json \<Rightarrow> json \<Rightarrow> json \<Rightarrow> bool" where
  "print_progress print_ok name uniform_input expected_output tolerance \<longleftrightarrow>
     print_ok name \<and> (print_ok uniform_input \<and> print_ok expected_output \<and> print_ok tolerance)"

text \<open>
  The body of the loop (lines 52-90) for one case, with the directory it leaves. A failed
  subscript raises before either file is opened; the two files are written next, the entry
  is appended to \<^verbatim>\<open>summary\<close>, and the two \<^verbatim>\<open>print\<close> calls come last, so a
  \<^verbatim>\<open>UnicodeEncodeError\<close> leaves the pair of this case written.
\<close>

definition loop_body ::
  "(json \<Rightarrow> bool) \<Rightarrow> (json \<Rightarrow> 'b) \<Rightarrow> nat \<Rightarrow> json \<Rightarrow> (string \<rightharpoonup> 'b)
     \<Rightarrow> (py_error + json) \<times> (string \<rightharpoonup> 'b)" where
  "loop_body print_ok dumps idx test_case dir =
     (case case_fields test_case of
        Inl e \<Rightarrow> (Inl e, dir)
      | Inr (name, uniform_input, expected_output, tolerance, notes) \<Rightarrow>
          let dir1 = dir(input_file_name idx \<mapsto> dumps (input_data uniform_input));
              dir2 = dir1(expected_file_name idx \<mapsto>
                       dumps (expected_data expected_output tolerance name notes));
              entry = summary_entry idx name uniform_input expected_output tolerance
          in if print_progress print_ok name uniform_input expected_output tolerance
             then (Inr entry, dir2)
             else (Inl UnicodeEncodeError, dir2))"

text \<open>
  The loop of line 51 over the remaining cases, \<open>idx\<close> being the number of the next one.
  An exception leaves the files already written in place.
\<close>

fun emit_cases ::
  "(json \<Rightarrow> bool) \<Rightarrow> (json \<Rightarrow> 'b) \<Rightarrow> nat \<Rightarrow> json list \<Rightarrow> json list \<Rightarrow> (string \<rightharpoonup> 'b)
     \<Rightarrow> (py_error + json list) \<times> (string \<rightharpoonup> 'b)" where
  "emit_cases print_ok dumps idx [] summary dir = (Inr summary, dir)"
| "emit_cases print_ok dumps idx (test_case # rest) summary dir =
     (case loop_body print_ok dumps idx test_case dir of
        (Inl e, dir') \<Rightarrow> (Inl e, dir')
      | (Inr entry, dir') \<Rightarrow>
          emit_cases print_ok dumps (Suc idx) rest (summary @ [entry]) dir')"

text \<open>The dictionary dumped into \<^verbatim>\<open>test_summary.json\<close> (lines 95-100).\<close>

definition summary_data :: "nat \<Rightarrow> json \<Rightarrow> json list \<Rightarrow> json" where
  "summary_data total_cases bulk summary =
     JObj [(''description'', JStr ''Summary of all CIRCOM test cases''),
           (''total_cases'', JInt (int total_cases)),
           (''bulk_validation'', bulk),
           (''test_cases'', JArr summary)]"

text \<open>
  \<^verbatim>\<open>generate_test_inputs()\<close>: the exception the run ends with, if any, and the file system
  it leaves. \<open>loads\<close> is \<^verbatim>\<open>json.load\<close> on the content of the source file (\<open>None\<close> when
  the content does not parse), \<open>dumps\<close> is \<^verbatim>\<open>json.dump\<close> with \<^verbatim>\<open>indent=2\<close>. The steps
  are in the order of the source: \<^verbatim>\<open>mkdir\<close> (line 37), \<^verbatim>\<open>open\<close> and \<^verbatim>\<open>json.load\<close>
  (lines 41-42), \<^verbatim>\<open>test_data['test_cases']\<close> (line 44), \<^verbatim>\<open>len\<close> (line 45), the loop
  (line 51, with the two \<^verbatim>\<open>print\<close> calls of each case) and the summary (lines 93-100).
  Where \<^verbatim>\<open>test_data.get\<close> is reached,
  \<^verbatim>\<open>test_data\<close> is a dictionary, because the subscript of line 44 has succeeded; the
  other branch of that case distinction is never taken.
\<close>

definition generate_test_inputs ::
  "(json \<Rightarrow> bool) \<Rightarrow> ('b \<Rightarrow> json option) \<Rightarrow> (json \<Rightarrow> 'b) \<Rightarrow> 'b fs
     \<Rightarrow> py_error option \<times> 'b fs" where
  "generate_test_inputs print_ok loads dumps fs =
     (case mkdir_exist_ok (test_dir fs) of
        Inl e \<Rightarrow> (Some e, fs)
      | Inr dir \<Rightarrow>
          let fs1 = fs\<lparr>test_dir := Directory dir\<rparr> in
          (case test_vectors_file fs1 of
             None \<Rightarrow> (Some FileNotFoundError, fs1)
           | Some content \<Rightarrow>
               (case loads content of
                  None \<Rightarrow> (Some JSONDecodeError, fs1)
                | Some test_data \<Rightarrow>
                    (case getitem test_data ''test_cases'' of
                       Inl e \<Rightarrow> (Some e, fs1)
                     | Inr test_cases \<Rightarrow>
                         (case py_len test_cases of
                            Inl e \<Rightarrow> (Some e, fs1)
                          | Inr total_cases \<Rightarrow>
                              (case py_iter test_cases of
                                 Inl e \<Rightarrow> (Some e, fs1)
                               | Inr cases \<Rightarrow>
                                   (case emit_cases print_ok dumps 1 cases [] dir of
                                      (Inl e, dir') \<Rightarrow> (Some e, fs1\<lparr>test_dir := Directory dir'\<rparr>)
                                    | (Inr summary, dir') \<Rightarrow>
                                        let bulk = (case test_data of
                                                      JObj kvs \<Rightarrow> dict_get kvs ''bulk_validation'' (JObj [])
                                                    | _ \<Rightarrow> JObj []);
                                            dir'' = dir'(summary_file_name \<mapsto>
                                                      dumps (summary_data total_cases bulk summary))
                                        in (None, fs1\<lparr>test_dir := Directory dir''\<rparr>))))))))"

section \<open>Vocabulary of the specification\<close>

text \<open>
  The five fields the specification requires of every test-case record, and the records
  that have them all.
\<close>

definition required_fields :: "string list" where
  "required_fields = [''name'', ''uniform_input'', ''expected_output'', ''tolerance'', ''notes'']"

definition has_required_fields :: "json \<Rightarrow> bool" where
  "has_required_fields test_case =
     (case test_case of
        JObj kvs \<Rightarrow> list_all (\<lambda>k. map_of kvs k \<noteq> None) required_fields
      | _ \<Rightarrow> False)"

text \<open>The files of the output directory; none when the directory is not there.\<close>

definition dir_contents :: "'b node \<Rightarrow> (string \<rightharpoonup> 'b)" where
  "dir_contents d = (case d of Directory m \<Rightarrow> m | _ \<Rightarrow> Map.empty)"



text \<open>
  A record whose five fields are there and whose printed fields the console accepts, and a
  valid source document all of whose records are such.
\<close>

definition case_printable :: "(json \<Rightarrow> bool) \<Rightarrow> json \<Rightarrow> bool" where
  "case_printable print_ok test_case =
     (case case_fields test_case of
        Inl e \<Rightarrow> False
      | Inr (name, uniform_input, expected_output, tolerance, notes) \<Rightarrow>
          print_progress print_ok name uniform_input expected_output tolerance)"



section \<open>Concrete documents\<close>

text \<open>
  The record of the specification's example (\<open>0.5\<close> and \<open>0.01\<close> as IEEE doubles), a
  second record whose name sorts before the first one's, a record without
  \<^verbatim>\<open>tolerance\<close>, and a record with all five fields whose name is the lone surrogate
  \<^verbatim>\<open>"\ud800"\<close>. In the concrete runs a file holds the value itself (\<open>loads\<close> is
  \<open>Some\<close>, \<open>dumps\<close> the identity) and the console encodes to UTF-8: the text of a
  number, of \<^verbatim>\<open>None\<close>, of a boolean, and of a list or a dictionary, where \<^verbatim>\<open>repr\<close>
  escapes surrogates, can always be written; a string is written as it is and is refused
  when it holds a surrogate.
\<close>

fun has_surrogate :: "string \<Rightarrow> bool" where
  "has_surrogate (a # b # rest) =
     ((of_char a = (0xED :: nat) \<and> (0xA0 :: nat) \<le> of_char b) \<or> has_surrogate (b # rest))"
| "has_surrogate [a] = False"
| "has_surrogate [] = False"

definition utf8_console :: "json \<Rightarrow> bool" where
  "utf8_console v = (case v of JStr s \<Rightarrow> \<not> has_surrogate s | _ \<Rightarrow> True)"









definition fs_without_source :: "json node \<Rightarrow> json fs" where
  "fs_without_source d = \<lparr>test_vectors_file = None, test_dir = d\<rparr>"

section \<open>Properties of the primitives and of the loop\<close>




lemma has_required_fields_iff:
  "has_required_fields tc \<longleftrightarrow> (\<exists>n u e t s. case_fields tc = Inr (n, u, e, t, s))"
  by (auto simp: has_required_fields_def required_fields_def case_fields_def getitem_def
      split: json.splits option.splits sum.splits)







lemma loop_body_Inl:
  "case_fields tc = Inl e \<Longrightarrow> loop_body p dumps idx tc d = (Inl e, d)"
  by (simp add: loop_body_def)

lemma loop_body_Inr:
  "case_fields tc = Inr (n, u, e, t, no) \<Longrightarrow>
   loop_body p dumps idx tc d =
     (if print_progress p n u e t then Inr (summary_entry idx n u e t)
      else Inl UnicodeEncodeError,
      d(input_file_name idx \<mapsto> dumps (input_data u),
        expected_file_name idx \<mapsto> dumps (expected_data e t n no)))"
  by (simp add: loop_body_def Let_def)

lemma case_printable_iff:
  "case_printable p tc \<longleftrightarrow>
     (\<exists>n u e t no. case_fields tc = Inr (n, u, e, t, no) \<and> print_progress p n u e t)"
  by (auto simp: case_printable_def split: sum.splits)

lemma case_printable_fields: "case_printable p tc \<Longrightarrow> has_required_fields tc"
  by (auto simp: case_printable_iff has_required_fields_iff)


lemma emit_cases_map_add:
  "\<exists>w. \<forall>d. emit_cases p dumps idx tcs s d
             = (fst (emit_cases p dumps idx tcs s Map.empty), d ++ w)"
proof (induction tcs arbitrary: idx s)
  case Nil
  have "\<forall>d::string \<rightharpoonup> 'a. emit_cases p dumps idx [] s d
          = (fst (emit_cases p dumps idx [] s Map.empty), d ++ Map.empty)" by simp
  then show ?case by blast
next
  case (Cons tc tcs)
  show ?case
  proof (cases "case_fields tc")
    case (Inl e)
    then have "\<forall>d::string \<rightharpoonup> 'a. emit_cases p dumps idx (tc # tcs) s d
          = (fst (emit_cases p dumps idx (tc # tcs) s Map.empty), d ++ Map.empty)"
      by (simp add: loop_body_Inl)
    then show ?thesis by blast
  next
    case (Inr r)
    obtain n u e t no where r: "r = (n, u, e, t, no)" by (cases r) auto
    let ?w0 = "[input_file_name idx \<mapsto> dumps (input_data u),
                expected_file_name idx \<mapsto> dumps (expected_data e t n no)]"
    let ?s = "s @ [summary_entry idx n u e t]"
    have lb: "\<And>d::string \<rightharpoonup> 'a. loop_body p dumps idx tc d =
        (if print_progress p n u e t then Inr (summary_entry idx n u e t)
         else Inl UnicodeEncodeError, d ++ ?w0)"
      using Inr r by (simp add: loop_body_Inr)
    show ?thesis
    proof (cases "print_progress p n u e t")
      case False
      with lb have "\<forall>d::string \<rightharpoonup> 'a. emit_cases p dumps idx (tc # tcs) s d
          = (fst (emit_cases p dumps idx (tc # tcs) s Map.empty), d ++ ?w0)"
        by simp
      then show ?thesis by blast
    next
      case True
      from Cons.IH[of "Suc idx" ?s] obtain w R where
        w: "\<And>d. emit_cases p dumps (Suc idx) tcs ?s d = (R, d ++ w)" by blast
      have step: "emit_cases p dumps idx (tc # tcs) s d = (R, d ++ (?w0 ++ w))"
        for d :: "string \<rightharpoonup> 'a"
      proof -
        have "emit_cases p dumps idx (tc # tcs) s d
                = emit_cases p dumps (Suc idx) tcs ?s (d ++ ?w0)"
          by (simp add: lb True)
        then show ?thesis by (simp only: w map_add_assoc)
      qed
      have "\<forall>d::string \<rightharpoonup> 'a. emit_cases p dumps idx (tc # tcs) s d
          = (fst (emit_cases p dumps idx (tc # tcs) s Map.empty), d ++ (?w0 ++ w))"
        by (simp only: step fst_conv simp_thms)
      then show ?thesis by blast
    qed
  qed
qed


















lemma generate_absent:
  "test_dir fs = Absent \<Longrightarrow>
   generate_test_inputs p loads dumps fs
     = generate_test_inputs p loads dumps (fs\<lparr>test_dir := Directory Map.empty\<rparr>)"
  by (simp add: generate_test_inputs_def mkdir_exist_ok_def)

lemma generate_regular_file:
  "test_dir fs = RegularFile \<Longrightarrow>
   generate_test_inputs p loads dumps fs = (Some FileExistsError, fs)"
  by (simp add: generate_test_inputs_def mkdir_exist_ok_def)

lemma generate_map_add:
  "\<exists>w r. \<forall>m. generate_test_inputs p loads dumps (fs\<lparr>test_dir := Directory m\<rparr>)
            = (r, fs\<lparr>test_dir := Directory (m ++ w)\<rparr>)"
proof -
  let ?G = "\<lambda>m. generate_test_inputs p loads dumps (fs\<lparr>test_dir := Directory m\<rparr>)"
  have stop: "\<exists>w r. \<forall>m. ?G m = (r, fs\<lparr>test_dir := Directory (m ++ w)\<rparr>)"
    if "\<And>m. ?G m = (r, fs\<lparr>test_dir := Directory m\<rparr>)" for r
  proof -
    from that have "\<forall>m. ?G m = (r, fs\<lparr>test_dir := Directory (m ++ Map.empty)\<rparr>)" by simp
    then show ?thesis by blast
  qed
  show ?thesis
  proof (cases "test_vectors_file fs")
    case None
    then show ?thesis
      by (intro stop[of "Some FileNotFoundError"])
         (simp add: generate_test_inputs_def mkdir_exist_ok_def)
  next
    case (Some content)
    note c = Some
    show ?thesis
    proof (cases "loads content")
      case None
      with c show ?thesis
        by (intro stop[of "Some JSONDecodeError"])
           (simp add: generate_test_inputs_def mkdir_exist_ok_def)
    next
      case (Some test_data)
      note l = Some
      show ?thesis
      proof (cases "getitem test_data ''test_cases''")
        case (Inl e)
        with c l show ?thesis
          by (intro stop[of "Some e"]) (simp add: generate_test_inputs_def mkdir_exist_ok_def)
      next
        case (Inr test_cases)
        note g = Inr
        show ?thesis
        proof (cases "py_len test_cases")
          case (Inl e)
          with c l g show ?thesis
            by (intro stop[of "Some e"]) (simp add: generate_test_inputs_def mkdir_exist_ok_def)
        next
          case (Inr total_cases)
          note n = Inr
          show ?thesis
          proof (cases "py_iter test_cases")
            case (Inl e)
            with c l g n show ?thesis
              by (intro stop[of "Some e"])
                 (simp add: generate_test_inputs_def mkdir_exist_ok_def)
          next
            case (Inr cs)
            note i = Inr
            let ?bulk = "case test_data of
                           JObj kvs \<Rightarrow> dict_get kvs ''bulk_validation'' (JObj [])
                         | _ \<Rightarrow> JObj []"
            have unfold: "?G m =
                (case emit_cases p dumps 1 cs [] m of
                   (Inl e, dir') \<Rightarrow> (Some e, fs\<lparr>test_dir := Directory dir'\<rparr>)
                 | (Inr summary, dir') \<Rightarrow>
                     (None, fs\<lparr>test_dir := Directory (dir'(summary_file_name \<mapsto>
                        dumps (summary_data total_cases ?bulk summary)))\<rparr>))" for m
              using c l g n i
              by (simp add: generate_test_inputs_def mkdir_exist_ok_def Let_def
                  split: prod.splits sum.splits)
            from emit_cases_map_add[of p dumps 1 cs "[]"] obtain w R where
              w: "\<And>m. emit_cases p dumps 1 cs [] m = (R, m ++ w)"
              by blast
            show ?thesis
            proof (cases R)
              case (Inl e)
              have "?G m = (Some e, fs\<lparr>test_dir := Directory (m ++ w)\<rparr>)" for m
                unfolding unfold w Inl by simp
              then show ?thesis by blast
            next
              case (Inr summary)
              let ?w = "w(summary_file_name \<mapsto> dumps (summary_data total_cases ?bulk summary))"
              have "?G m = (None, fs\<lparr>test_dir := Directory (m ++ ?w)\<rparr>)" for m
                unfolding unfold w Inr by simp
              then show ?thesis by blast
            qed
          qed
        qed
      qed
    qed
  qed
qed

lemma map_add_twice: "(m ++ w) ++ w = m ++ w"
  by (simp add: map_add_def fun_eq_iff split: option.splits)

section \<open>The claims\<close>
















text \<open>
  C6. Running the tool a second time on the file system the first run left (the source
  document unchanged, which the run never touches) ends the same way and leaves every file
  with the same content; and what a run writes does not depend on what the output
  directory held before: the directory after a run is its earlier content overridden by
  what the same run writes into an empty directory.
\<close>

theorem rerun_idempotent:
  "generate_test_inputs print_ok loads dumps (snd (generate_test_inputs print_ok loads dumps fs))
     = generate_test_inputs print_ok loads dumps fs \<and>
   test_vectors_file (snd (generate_test_inputs print_ok loads dumps fs)) = test_vectors_file fs \<and>
   dir_contents (test_dir (snd (generate_test_inputs print_ok loads dumps
                                  (fs\<lparr>test_dir := Directory m\<rparr>))))
     = m ++ dir_contents (test_dir (snd (generate_test_inputs print_ok loads dumps
                                           (fs\<lparr>test_dir := Directory Map.empty\<rparr>))))"
proof -
  let ?G = "\<lambda>m. generate_test_inputs print_ok loads dumps (fs\<lparr>test_dir := Directory m\<rparr>)"
  from generate_map_add[of print_ok loads dumps fs] obtain w r where
    G: "\<And>m. ?G m = (r, fs\<lparr>test_dir := Directory (m ++ w)\<rparr>)" by blast
  have again: "generate_test_inputs print_ok loads dumps (snd (?G m)) = ?G m" for m
  proof -
    have "generate_test_inputs print_ok loads dumps (snd (?G m)) = ?G (m ++ w)"
      by (simp add: G)
    also have "\<dots> = ?G m"
      by (simp only: G map_add_twice)
    finally show ?thesis .
  qed
  have first: "generate_test_inputs print_ok loads dumps (snd (generate_test_inputs print_ok loads dumps fs))
     = generate_test_inputs print_ok loads dumps fs"
  proof (cases "test_dir fs")
    case Absent
    from again[of Map.empty] show ?thesis
      by (simp only: generate_absent[OF Absent])
  next
    case RegularFile
    then show ?thesis by (simp add: generate_regular_file)
  next
    case (Directory m)
    then have "fs\<lparr>test_dir := Directory m\<rparr> = fs" by simp
    with again[of m] show ?thesis by simp
  qed
  have second: "test_vectors_file (snd (generate_test_inputs print_ok loads dumps fs))
     = test_vectors_file fs"
  proof (cases "test_dir fs")
    case Absent
    then show ?thesis by (simp add: generate_absent G)
  next
    case RegularFile
    then show ?thesis by (simp add: generate_regular_file)
  next
    case (Directory m)
    then have "fs\<lparr>test_dir := Directory m\<rparr> = fs" by simp
    with G[of m] show ?thesis by simp
  qed
  have third: "dir_contents (test_dir (snd (?G m)))
     = m ++ dir_contents (test_dir (snd (?G Map.empty)))"
    by (simp add: G dir_contents_def)
  from first second third show ?thesis by blast
qed




text \<open>
  C8, as stated, fails: \<^verbatim>\<open>test_dir.mkdir(exist_ok=True)\<close> runs before the source file is
  opened, so when neither the source file nor the output directory exists the run ends with
  \<^verbatim>\<open>FileNotFoundError\<close> and the output location is not as it was: the directory has
  been created.
\<close>

theorem missing_source_counterexample:
  "fst (generate_test_inputs utf8_console Some id (fs_without_source Absent)) = Some FileNotFoundError \<and>
   test_dir (fs_without_source Absent) = Absent \<and>
   test_dir (snd (generate_test_inputs utf8_console Some id (fs_without_source Absent))) \<noteq> Absent"
  by (simp add: generate_test_inputs_def mkdir_exist_ok_def fs_without_source_def)

text \<open>
  C8, amended. If the source file does not exist and the output path is not occupied by
  something other than a directory, the run fails with \<^verbatim>\<open>FileNotFoundError\<close> and no file
  of the output directory is written or changed; the output directory is left as it was if
  it existed and is created, empty, if it did not.
\<close>

theorem missing_source_file:
  assumes "test_vectors_file fs = None" "test_dir fs \<noteq> RegularFile"
  shows "generate_test_inputs print_ok loads dumps fs
           = (Some FileNotFoundError, fs\<lparr>test_dir := Directory (dir_contents (test_dir fs))\<rparr>)"
  using assms
  by (cases "test_dir fs")
     (simp_all add: generate_test_inputs_def mkdir_exist_ok_def dir_contents_def)

theorem missing_source_file_witness:
  "test_vectors_file (fs_without_source Absent) = None \<and>
   test_dir (fs_without_source Absent) \<noteq> RegularFile \<and>
   test_dir (fs_without_source (Directory [''input_case9.json'' \<mapsto> JNull])) \<noteq> RegularFile \<and>
   generate_test_inputs utf8_console Some (\<lambda>v. v) (fs_without_source Absent)
     = (Some FileNotFoundError, fs_without_source (Directory Map.empty)) \<and>
   generate_test_inputs utf8_console Some (\<lambda>v. v)
       (fs_without_source (Directory [''input_case9.json'' \<mapsto> JNull]))
     = (Some FileNotFoundError, fs_without_source (Directory [''input_case9.json'' \<mapsto> JNull]))"
proof -
  let ?stale = "Directory [''input_case9.json'' \<mapsto> JNull] :: json node"
  have a: "test_vectors_file (fs_without_source Absent) = None"
    "test_dir (fs_without_source Absent) \<noteq> RegularFile"
    by (simp_all add: fs_without_source_def)
  have b: "test_vectors_file (fs_without_source ?stale) = None"
    "test_dir (fs_without_source ?stale) \<noteq> RegularFile"
    by (simp_all add: fs_without_source_def)
  have upd: "(fs_without_source Absent)\<lparr>test_dir :=
                Directory (dir_contents (test_dir (fs_without_source Absent)))\<rparr>
               = fs_without_source (Directory Map.empty)"
    "(fs_without_source ?stale)\<lparr>test_dir :=
                Directory (dir_contents (test_dir (fs_without_source ?stale)))\<rparr>
               = fs_without_source ?stale"
    by (simp_all add: fs_without_source_def dir_contents_def)
  from missing_source_file[OF a, of utf8_console Some "\<lambda>v. v"]
    missing_source_file[OF b, of utf8_console Some "\<lambda>v. v"] a b
  show ?thesis by (simp only: upd simp_thms)
qed






end
